theory Spec2Isabelle
  imports Complex_Main
begin

section \<open>Python values and exceptions\<close>

text \<open>
  The values that flow through \<^verbatim>\<open>photo_processor.py\<close>: what \<^verbatim>\<open>json.loads\<close> returns for
  the output of the external metadata tool, and what the embedded-tag reader stores in the
  \<^verbatim>\<open>values\<close> of a tag. A Python \<^verbatim>\<open>int\<close> or \<^verbatim>\<open>float\<close> is \<open>PNum\<close>; floats are read as
  the real numbers they denote, so rounding, infinities and NaN are outside the model
  (JSON \<^verbatim>\<open>true\<close>/\<^verbatim>\<open>false\<close> are the numbers 1 and 0, as \<^verbatim>\<open>bool\<close> is a subclass of
  \<^verbatim>\<open>int\<close>). \<open>PRatio n d\<close> is the tag reader's rational \<^verbatim>\<open>Ratio(n, d)\<close>, which may have
  denominator 0. A dictionary is an association list read with \<open>map_of\<close>. Strings are
  lists of 8-bit characters: the character classes below are the ASCII ones.
\<close>

datatype pyval =
    PNone
  | PNum real
  | PStr string
  | PList "pyval list"
  | PDict "(string \<times> pyval) list"
  | PRatio int int

datatype py_error =
    TypeError | ValueError | KeyError | IndexError | AttributeError
  | ZeroDivisionError | OSError

text \<open>Truthiness, as \<^verbatim>\<open>if x:\<close> and \<^verbatim>\<open>not x\<close> test it.\<close>

fun py_truthy :: "pyval \<Rightarrow> bool" where
  "py_truthy PNone = False"
| "py_truthy (PNum r) = (r \<noteq> 0)"
| "py_truthy (PStr s) = (s \<noteq> [])"
| "py_truthy (PList xs) = (xs \<noteq> [])"
| "py_truthy (PDict kvs) = (kvs \<noteq> [])"
| "py_truthy (PRatio n d) = (n \<noteq> 0)"

subsection \<open>Strings\<close>

definition is_space :: "char \<Rightarrow> bool" where
  "is_space c = (c \<in> set [CHR 0x09, CHR 0x0A, CHR 0x0B, CHR 0x0C, CHR 0x0D,
                            CHR 0x1C, CHR 0x1D, CHR 0x1E, CHR 0x1F, CHR '' ''])"

definition is_digit :: "char \<Rightarrow> bool" where
  "is_digit c = (c \<in> set ''0123456789'')"

text \<open>\<^verbatim>\<open>s.strip()\<close>\<close>

definition py_strip :: "string \<Rightarrow> string" where
  "py_strip s = rev (dropWhile is_space (rev (dropWhile is_space s)))"

text \<open>\<^verbatim>\<open>s.lower()\<close>\<close>

definition lower_char :: "char \<Rightarrow> char" where
  "lower_char c =
     (case map_of (zip ''ABCDEFGHIJKLMNOPQRSTUVWXYZ'' ''abcdefghijklmnopqrstuvwxyz'') c of
        Some d \<Rightarrow> d
      | None \<Rightarrow> c)"

definition py_lower :: "string \<Rightarrow> string" where
  "py_lower s = map lower_char s"

text \<open>\<^verbatim>\<open>s.startswith(x)\<close>, \<^verbatim>\<open>s.endswith(x)\<close>, \<^verbatim>\<open>x in s\<close>\<close>

definition startswith :: "string \<Rightarrow> string \<Rightarrow> bool" where
  "startswith s x = (take (length x) s = x)"

definition endswith :: "string \<Rightarrow> string \<Rightarrow> bool" where
  "endswith s x = (length x \<le> length s \<and> drop (length s - length x) s = x)"

fun str_contains :: "string \<Rightarrow> string \<Rightarrow> bool" where
  "str_contains x [] = (x = [])"
| "str_contains x (c # cs) = (startswith (c # cs) x \<or> str_contains x cs)"

text \<open>
  \<^verbatim>\<open>s.replace(x, '')\<close> for a non-empty \<open>x\<close>: occurrences are removed from left to right
  without overlap; \<open>k\<close> counts the characters of the current occurrence still to drop.
\<close>

fun remove_aux :: "string \<Rightarrow> nat \<Rightarrow> string \<Rightarrow> string" where
  "remove_aux x k [] = []"
| "remove_aux x k (c # cs) =
     (if 0 < k then remove_aux x (k - 1) cs
      else if x \<noteq> [] \<and> startswith (c # cs) x then remove_aux x (length x - 1) cs
      else c # remove_aux x 0 cs)"

definition py_remove :: "string \<Rightarrow> string \<Rightarrow> string" where
  "py_remove x s = remove_aux x 0 s"

text \<open>\<^verbatim>\<open>s.split()\<close>: the maximal runs of non-whitespace characters.\<close>

fun split_ws_aux :: "string \<Rightarrow> string \<Rightarrow> string list" where
  "split_ws_aux cur [] = (if cur = [] then [] else [rev cur])"
| "split_ws_aux cur (c # cs) =
     (if is_space c then (if cur = [] then split_ws_aux [] cs else rev cur # split_ws_aux [] cs)
      else split_ws_aux (c # cur) cs)"

definition py_split :: "string \<Rightarrow> string list" where
  "py_split s = split_ws_aux [] s"

text \<open>\<^verbatim>\<open>s.split(',')\<close>: the pieces between the separators, empty ones included.\<close>

fun split_on_aux :: "char \<Rightarrow> string \<Rightarrow> string \<Rightarrow> string list" where
  "split_on_aux sep cur [] = [rev cur]"
| "split_on_aux sep cur (c # cs) =
     (if c = sep then rev cur # split_on_aux sep [] cs else split_on_aux sep (c # cur) cs)"

definition py_split_on :: "char \<Rightarrow> string \<Rightarrow> string list" where
  "py_split_on sep s = split_on_aux sep [] s"

subsection \<open>Conversions and container access\<close>

text \<open>
  \<^verbatim>\<open>float(x)\<close>. Parsing a string is Python's own: the parser is the parameter \<open>fl\<close>
  (\<open>None\<close> where \<^verbatim>\<open>float\<close> raises \<^verbatim>\<open>ValueError\<close>). A \<^verbatim>\<open>Ratio\<close> converts by dividing
  numerator by denominator, which raises \<^verbatim>\<open>ZeroDivisionError\<close> on denominator 0.
\<close>

fun py_float :: "(string \<Rightarrow> real option) \<Rightarrow> pyval \<Rightarrow> py_error + real" where
  "py_float fl PNone = Inl TypeError"
| "py_float fl (PNum r) = Inr r"
| "py_float fl (PStr s) = (case fl s of None \<Rightarrow> Inl ValueError | Some r \<Rightarrow> Inr r)"
| "py_float fl (PList xs) = Inl TypeError"
| "py_float fl (PDict kvs) = Inl TypeError"
| "py_float fl (PRatio n d) =
     (if d = 0 then Inl ZeroDivisionError else Inr (real_of_int n / real_of_int d))"

text \<open>\<^verbatim>\<open>key in x\<close> for a string key.\<close>

fun py_in :: "string \<Rightarrow> pyval \<Rightarrow> py_error + bool" where
  "py_in k (PDict kvs) = Inr (k \<in> set (map fst kvs))"
| "py_in k (PList xs) = Inr (PStr k \<in> set xs)"
| "py_in k (PStr s) = Inr (str_contains k s)"
| "py_in k PNone = Inl TypeError"
| "py_in k (PNum r) = Inl TypeError"
| "py_in k (PRatio n d) = Inl TypeError"

text \<open>\<^verbatim>\<open>x[key]\<close> for a string key: only a dictionary can be indexed by a string.\<close>

fun py_getitem :: "pyval \<Rightarrow> string \<Rightarrow> py_error + pyval" where
  "py_getitem (PDict kvs) k = (case map_of kvs k of None \<Rightarrow> Inl KeyError | Some v \<Rightarrow> Inr v)"
| "py_getitem x k = Inl TypeError"

text \<open>\<^verbatim>\<open>x.get(key, default)\<close>: only a dictionary has the method.\<close>

fun py_get :: "pyval \<Rightarrow> string \<Rightarrow> pyval \<Rightarrow> py_error + pyval" where
  "py_get (PDict kvs) k dflt = (case map_of kvs k of None \<Rightarrow> Inr dflt | Some v \<Rightarrow> Inr v)"
| "py_get x k dflt = Inl AttributeError"

text \<open>\<^verbatim>\<open>x[0]\<close>\<close>

fun py_first :: "pyval \<Rightarrow> py_error + pyval" where
  "py_first (PList []) = Inl IndexError"
| "py_first (PList (x # xs)) = Inr x"
| "py_first (PStr []) = Inl IndexError"
| "py_first (PStr (c # cs)) = Inr (PStr [c])"
| "py_first (PDict kvs) = Inl KeyError"
| "py_first x = Inl TypeError"

section \<open>GPS coordinate normalizer\<close>

text \<open>
  \<^verbatim>\<open>degrees + (minutes / 60.0) + (seconds / 3600.0)\<close> after the three \<^verbatim>\<open>float\<close>
  conversions, made in this order; the first one that raises ends the computation.
\<close>

definition dms_decimal ::
    "(py_error + real) \<Rightarrow> (py_error + real) \<Rightarrow> (py_error + real) \<Rightarrow> py_error + real" where
  "dms_decimal fd fm fs =
     (case fd of
        Inl e \<Rightarrow> Inl e
      | Inr degrees \<Rightarrow>
          (case fm of
             Inl e \<Rightarrow> Inl e
           | Inr minutes \<Rightarrow>
               (case fs of
                  Inl e \<Rightarrow> Inl e
                | Inr seconds \<Rightarrow> Inr (degrees + (minutes / 60) + (seconds / 3600)))))"

text \<open>
  The body of the \<^verbatim>\<open>try\<close> of \<^verbatim>\<open>convert_gps_to_decimal\<close> up to the hemisphere test:
  \<open>Inr None\<close> is the \<^verbatim>\<open>return None\<close> of the unknown-format branch, \<open>Inl e\<close> an exception
  raised by a conversion. In the string branch \<^verbatim>\<open>len(parts) >= 1\<close> fails only for a string
  that is blank after the unit markers are removed.
\<close>

definition gps_decimal :: "(string \<Rightarrow> real option) \<Rightarrow> pyval \<Rightarrow> py_error + real option" where
  "gps_decimal fl gps_coords =
     (case gps_coords of
        PList xs \<Rightarrow>
          (if length xs = 3 then
             map_sum id Some
               (dms_decimal (py_float fl (xs ! 0)) (py_float fl (xs ! 1)) (py_float fl (xs ! 2)))
           else Inr None)
      | PStr s \<Rightarrow>
          (let s' = py_strip (py_remove [CHR 0x22] (py_remove [CHR 0x27] (py_remove ''deg'' s)));
               parts = py_split s'
           in if length parts \<ge> 1 then
                map_sum id Some
                  (dms_decimal (py_float fl (PStr (parts ! 0)))
                     (if length parts > 1 then py_float fl (PStr (parts ! 1)) else Inr 0)
                     (if length parts > 2 then py_float fl (PStr (parts ! 2)) else Inr 0))
              else map_sum id Some (py_float fl (PStr s')))
      | PNum r \<Rightarrow> Inr (Some r)
      | PNone \<Rightarrow> Inr None
      | PDict kvs \<Rightarrow> Inr None
      | PRatio n d \<Rightarrow> Inr None)"

text \<open>
  \<^verbatim>\<open>convert_gps_to_decimal(gps_coords, gps_ref)\<close>: \<open>None\<close> is Python's \<^verbatim>\<open>None\<close>, returned
  for an unknown format and by the \<^verbatim>\<open>except Exception\<close> handler.
\<close>

definition convert_gps_to_decimal ::
    "(string \<Rightarrow> real option) \<Rightarrow> pyval \<Rightarrow> pyval \<Rightarrow> real option" where
  "convert_gps_to_decimal fl gps_coords gps_ref =
     (case gps_decimal fl gps_coords of
        Inl e \<Rightarrow> None
      | Inr None \<Rightarrow> None
      | Inr (Some decimal) \<Rightarrow>
          Some (if gps_ref \<in> set [PStr ''S'', PStr ''W''] then - decimal else decimal))"

section \<open>Photo records and temporary files\<close>

text \<open>
  The dictionary \<^verbatim>\<open>photo_data\<close> built by \<^verbatim>\<open>extract_metadata_from_photo\<close>. The keys
  \<^verbatim>\<open>path\<close>, \<^verbatim>\<open>filename\<close>, \<^verbatim>\<open>caption\<close> and \<^verbatim>\<open>temp_file\<close> are always there; a key that
  is only added later (\<^verbatim>\<open>width\<close>, \<^verbatim>\<open>height\<close>, \<^verbatim>\<open>latitude\<close>, \<^verbatim>\<open>longitude\<close>,
  \<^verbatim>\<open>orientation\<close>) is \<open>None\<close> while it is missing. The caption is whatever value was
  stored, \<open>PNone\<close> at the start.
\<close>

record photo_data =
  path :: string
  filename :: string
  caption :: pyval
  temp_file :: "string option"
  width :: "nat option"
  height :: "nat option"
  latitude :: "real option"
  longitude :: "real option"
  orientation :: "real option"

text \<open>
  \<^verbatim>\<open>os.unlink(p)\<close> on a file system with the existing paths \<open>files\<close>: it raises for a
  path that does not exist or one of \<open>locked\<close> (no permission, a directory, ...), and
  otherwise removes the path.
\<close>

definition os_unlink :: "string set \<Rightarrow> string set \<Rightarrow> string \<Rightarrow> py_error + string set" where
  "os_unlink locked files p =
     (if p \<notin> files \<or> p \<in> locked then Inl OSError else Inr (files - {p}))"

text \<open>
  The loop of \<^verbatim>\<open>cleanup_temp_files\<close>. The state is the set of existing paths, the paths
  \<^verbatim>\<open>os.unlink\<close> was called on, in order, and the paths whose deletion error was printed by
  the \<^verbatim>\<open>except Exception\<close> handler. An entry is skipped when it is \<^verbatim>\<open>None\<close>, when
  \<^verbatim>\<open>photo_data.get('temp_file')\<close> is \<^verbatim>\<open>None\<close> or the empty string, or when
  \<^verbatim>\<open>os.path.exists\<close> is false.
\<close>

fun cleanup_loop ::
    "string set \<Rightarrow> string set \<times> string list \<times> string list \<Rightarrow> photo_data option list
       \<Rightarrow> py_error + string set \<times> string list \<times> string list" where
  "cleanup_loop locked st [] = Inr st"
| "cleanup_loop locked (files, tried, logged) (entry # rest) =
     (case entry of
        None \<Rightarrow> cleanup_loop locked (files, tried, logged) rest
      | Some pd \<Rightarrow>
          (case temp_file pd of
             None \<Rightarrow> cleanup_loop locked (files, tried, logged) rest
           | Some p \<Rightarrow>
               if p \<noteq> [] \<and> p \<in> files then
                 (case os_unlink locked files p of
                    Inl e \<Rightarrow> cleanup_loop locked (files, tried @ [p], logged @ [p]) rest
                  | Inr files' \<Rightarrow> cleanup_loop locked (files', tried @ [p], logged) rest)
               else cleanup_loop locked (files, tried, logged) rest))"

text \<open>
  \<^verbatim>\<open>cleanup_temp_files(photo_data_list)\<close>; the argument \<open>None\<close> is Python's \<^verbatim>\<open>None\<close>.
  \<open>Inl e\<close> would be an exception leaving the function.
\<close>

definition cleanup_temp_files ::
    "string set \<Rightarrow> string set \<Rightarrow> photo_data option list option
       \<Rightarrow> py_error + string set \<times> string list \<times> string list" where
  "cleanup_temp_files locked files photo_data_list =
     (case photo_data_list of
        None \<Rightarrow> Inr (files, [], [])
      | Some entries \<Rightarrow> cleanup_loop locked (files, [], []) entries)"

section \<open>External collaborators\<close>

text \<open>
  Everything \<^verbatim>\<open>photo_processor.py\<close> obtains from outside itself is a field of the
  environment: the results of the subprocesses it runs (\<open>None\<close> where \<^verbatim>\<open>subprocess.run\<close>
  raises, for instance because the tool is not installed), \<^verbatim>\<open>json.loads\<close> (\<open>None\<close> for
  \<^verbatim>\<open>JSONDecodeError\<close>), \<^verbatim>\<open>float\<close> on strings, \<^verbatim>\<open>os.path.exists\<close>, reading a text file,
  \<^verbatim>\<open>Image.open(path).size\<close>, the conversion of a HEIC image into a temporary JPEG (the
  name of the temporary file, \<open>None\<close> where creating or saving it raises), the tags
  \<^verbatim>\<open>exifread.process_file(f, details=False)\<close> returns (\<open>None\<close> where opening or parsing
  raises), and the list returned by the diagnostic pass \<^verbatim>\<open>extract_all_metadata\<close>, whose
  whole body is inside \<^verbatim>\<open>try ... except Exception: return []\<close>. The last field says whether
  \<^verbatim>\<open>strftime('%Y')\<close> pads a year below 1000 with zeros, which depends on the platform.
\<close>

record proc_result =
  returncode :: int
  stdout :: string

text \<open>A tag of the embedded-tag reader: \<^verbatim>\<open>str(tag)\<close> and \<^verbatim>\<open>tag.values\<close>.\<close>

record exif_tag =
  printable :: string
  tvalues :: pyval

record env =
  float_of_str :: "string \<Rightarrow> real option"
  json_loads :: "string \<Rightarrow> pyval option"
  run_exiftool :: "string \<Rightarrow> proc_result option"
  run_exiftool_gps :: "string \<Rightarrow> proc_result option"
  run_mdls :: "string \<Rightarrow> string \<Rightarrow> proc_result option"
  run_sips :: "string \<Rightarrow> proc_result option"
  path_exists :: "string \<Rightarrow> bool"
  read_text :: "string \<Rightarrow> string option"
  image_size :: "string \<Rightarrow> (nat \<times> nat) option"
  heic_to_jpeg :: "string \<Rightarrow> string option"
  exif_tags :: "string \<Rightarrow> (string \<times> exif_tag) list option"
  debug_tags :: "string \<Rightarrow> (string \<times> string) list"
  pad_year :: bool

text \<open>
  \<^verbatim>\<open>get_heic_metadata_with_exiftool(photo_path)\<close>: the first element of the JSON list the
  tool printed, whatever it is, and the empty dictionary in every other case. The presence
  check for the tool changes nothing: both its outcomes and its exception only print.
\<close>

definition get_heic_metadata_with_exiftool :: "env \<Rightarrow> string \<Rightarrow> pyval" where
  "get_heic_metadata_with_exiftool ev photo_path =
     (case run_exiftool ev photo_path of
        None \<Rightarrow> PDict []
      | Some result \<Rightarrow>
          if returncode result = 0 \<and> stdout result \<noteq> [] then
            (case json_loads ev (stdout result) of
               None \<Rightarrow> PDict []
             | Some metadata \<Rightarrow>
                 (case metadata of PList (x # xs) \<Rightarrow> x | _ \<Rightarrow> PDict []))
          else PDict [])"

section \<open>GPS resolver\<close>

definition gps_keys :: "(string \<times> string option \<times> string option \<times> string option) list" where
  "gps_keys =
     [(''EXIF:GPSLatitude'', Some ''EXIF:GPSLatitudeRef'',
         Some ''EXIF:GPSLongitude'', Some ''EXIF:GPSLongitudeRef''),
      (''Composite:GPSLatitude'', Some ''Composite:GPSLatitudeRef'',
         Some ''Composite:GPSLongitude'', Some ''Composite:GPSLongitudeRef''),
      (''XMP:GPSLatitude'', Some ''XMP:GPSLatitudeRef'',
         Some ''XMP:GPSLongitude'', Some ''XMP:GPSLongitudeRef''),
      (''GPS:Latitude'', Some ''GPS:LatitudeRef'', Some ''GPS:Longitude'', Some ''GPS:LongitudeRef''),
      (''EXIF:GPSLatitude'', None, Some ''EXIF:GPSLongitude'', None),
      (''Composite:GPSPosition'', None, None, None)]"

text \<open>
  The state of the resolver is the pair of the local variables \<^verbatim>\<open>latitude\<close> and
  \<^verbatim>\<open>longitude\<close>. One round of the loop over \<open>gps_keys\<close> returns the new state and whether
  it reached \<^verbatim>\<open>break\<close>. The body of the round is a \<^verbatim>\<open>try\<close> whose handler is
  \<^verbatim>\<open>continue\<close>: an exception ends the round and keeps the assignments made before it.
\<close>

type_synonym gps_state = "real option \<times> real option"

text \<open>
  The reference direction of one coordinate: \<^verbatim>\<open>md.get(ref_key, dflt) if ref_key else dflt\<close>,
  replaced by \<^verbatim>\<open>None\<close> when the raw value is a negative number.
\<close>

definition gps_ref_of :: "pyval \<Rightarrow> string option \<Rightarrow> string \<Rightarrow> pyval \<Rightarrow> py_error + pyval" where
  "gps_ref_of md ref_key dflt v =
     (case (case ref_key of None \<Rightarrow> Inr (PStr dflt) | Some k \<Rightarrow> py_get md k (PStr dflt)) of
        Inl e \<Rightarrow> Inl e
      | Inr r \<Rightarrow> Inr (case v of PNum x \<Rightarrow> (if x < 0 then PNone else r) | _ \<Rightarrow> r))"

text \<open>\<^verbatim>\<open>convert_gps_to_decimal(v, ref) if ref else float(v)\<close>\<close>

definition gps_coord :: "(string \<Rightarrow> real option) \<Rightarrow> pyval \<Rightarrow> pyval \<Rightarrow> py_error + real option" where
  "gps_coord fl v r =
     (if py_truthy r then Inr (convert_gps_to_decimal fl v r) else map_sum id Some (py_float fl v))"

text \<open>The branch for a latitude key and a longitude key that are both present.\<close>

definition gps_pair ::
    "(string \<Rightarrow> real option) \<Rightarrow> pyval \<Rightarrow> string \<Rightarrow> string option \<Rightarrow> string \<Rightarrow> string option
       \<Rightarrow> gps_state \<Rightarrow> gps_state \<times> bool" where
  "gps_pair fl md lat_key lat_ref_key lon_key lon_ref_key st =
     (case py_getitem md lat_key of
        Inl e \<Rightarrow> (st, False)
      | Inr lat \<Rightarrow>
     (case py_getitem md lon_key of
        Inl e \<Rightarrow> (st, False)
      | Inr lon \<Rightarrow>
     (case gps_ref_of md lat_ref_key ''N'' lat of
        Inl e \<Rightarrow> (st, False)
      | Inr lat_ref \<Rightarrow>
     (case gps_ref_of md lon_ref_key ''E'' lon of
        Inl e \<Rightarrow> (st, False)
      | Inr lon_ref \<Rightarrow>
     (case gps_coord fl lat lat_ref of
        Inl e \<Rightarrow> (st, False)
      | Inr latitude' \<Rightarrow>
     (case gps_coord fl lon lon_ref of
        Inl e \<Rightarrow> ((latitude', snd st), False)
      | Inr longitude' \<Rightarrow> ((latitude', longitude'), True)))))))"

text \<open>
  The branch for the combined field \<^verbatim>\<open>"lat, lon"\<close>. Unpacking
  \<^verbatim>\<open>position.split(',')\<close> into two names raises unless there are exactly two pieces.
\<close>

definition gps_position :: "(string \<Rightarrow> real option) \<Rightarrow> pyval \<Rightarrow> gps_state \<Rightarrow> gps_state \<times> bool" where
  "gps_position fl md st =
     (case py_getitem md ''Composite:GPSPosition'' of
        Inl e \<Rightarrow> (st, False)
      | Inr position \<Rightarrow>
          (case position of
             PStr s \<Rightarrow>
               (if CHR '','' \<in> set s then
                  (case py_split_on CHR '','' s of
                     [lat_str, lon_str] \<Rightarrow>
                       (case py_float fl (PStr (py_strip lat_str)) of
                          Inl e \<Rightarrow> (st, False)
                        | Inr la \<Rightarrow>
                            (case py_float fl (PStr (py_strip lon_str)) of
                               Inl e \<Rightarrow> ((Some la, snd st), False)
                             | Inr lo \<Rightarrow> ((Some la, Some lo), True)))
                   | _ \<Rightarrow> (st, False))
                else (st, False))
           | _ \<Rightarrow> (st, False)))"

text \<open>
  One round. The test \<^verbatim>\<open>lat_key in md\<close> is made by whichever of the two conditions comes
  to it and has the same outcome in both. The only row without a longitude key is the
  combined one, which never reaches the second branch with its key present.
\<close>

definition gps_try ::
    "(string \<Rightarrow> real option) \<Rightarrow> pyval \<Rightarrow> string \<times> string option \<times> string option \<times> string option
       \<Rightarrow> gps_state \<Rightarrow> gps_state \<times> bool" where
  "gps_try fl md row st =
     (case row of (lat_key, lat_ref_key, lon_key, lon_ref_key) \<Rightarrow>
        (case py_in lat_key md of
           Inl e \<Rightarrow> (st, False)
         | Inr present \<Rightarrow>
             if lat_key = ''Composite:GPSPosition'' \<and> present then gps_position fl md st
             else if present then
               (case lon_key of
                  None \<Rightarrow> (st, False)
                | Some lk \<Rightarrow>
                    (case py_in lk md of
                       Inl e \<Rightarrow> (st, False)
                     | Inr lon_present \<Rightarrow>
                         if lon_present then gps_pair fl md lat_key lat_ref_key lk lon_ref_key st
                         else (st, False)))
             else (st, False)))"

fun gps_loop ::
    "(string \<Rightarrow> real option) \<Rightarrow> pyval
       \<Rightarrow> (string \<times> string option \<times> string option \<times> string option) list
       \<Rightarrow> gps_state \<Rightarrow> gps_state" where
  "gps_loop fl md [] st = st"
| "gps_loop fl md (row # rows) st =
     (case gps_try fl md row st of
        (st', broke) \<Rightarrow> if broke then st' else gps_loop fl md rows st')"

definition gps_missing :: "gps_state \<Rightarrow> bool" where
  "gps_missing st = (fst st = None \<or> snd st = None)"

text \<open>
  First source: the metadata of the external tool. When a coordinate is still missing
  after the loop, the diagnostic loop over \<^verbatim>\<open>exiftool_metadata.items()\<close> runs, outside any
  \<^verbatim>\<open>try\<close>: it raises \<^verbatim>\<open>AttributeError\<close> when the metadata is not a dictionary.
\<close>

definition gps_from_exiftool ::
    "(string \<Rightarrow> real option) \<Rightarrow> pyval \<Rightarrow> gps_state \<Rightarrow> py_error + gps_state" where
  "gps_from_exiftool fl md st =
     (if py_truthy md then
        (let st' = gps_loop fl md gps_keys st
         in if gps_missing st' then
              (case md of PDict kvs \<Rightarrow> Inr st' | _ \<Rightarrow> Inl AttributeError)
            else Inr st')
      else Inr st)"

text \<open>
  Second source: the embedded tags. A missing reference tag makes
  \<^verbatim>\<open>tags.get(..., 'N').values\<close> raise, before either coordinate is assigned.
\<close>

definition tags_truthy :: "(string \<times> exif_tag) list option \<Rightarrow> bool" where
  "tags_truthy tags = (case tags of None \<Rightarrow> False | Some kvs \<Rightarrow> kvs \<noteq> [])"

definition gps_from_tags ::
    "(string \<Rightarrow> real option) \<Rightarrow> (string \<times> exif_tag) list option \<Rightarrow> gps_state \<Rightarrow> gps_state" where
  "gps_from_tags fl tags st =
     (if gps_missing st \<and> tags_truthy tags then
        (case tags of
           None \<Rightarrow> st
         | Some kvs \<Rightarrow>
             (case (map_of kvs ''GPS GPSLatitude'', map_of kvs ''GPS GPSLongitude'') of
                (Some lat_tag, Some lon_tag) \<Rightarrow>
                  (case (map_of kvs ''GPS GPSLatitudeRef'', map_of kvs ''GPS GPSLongitudeRef'') of
                     (Some lat_ref_tag, Some lon_ref_tag) \<Rightarrow>
                       (convert_gps_to_decimal fl (tvalues lat_tag) (tvalues lat_ref_tag),
                        convert_gps_to_decimal fl (tvalues lon_tag) (tvalues lon_ref_tag))
                   | _ \<Rightarrow> st)
              | _ \<Rightarrow> st))
      else st)"

text \<open>The first match of the pattern \<^verbatim>\<open>= ([-\d.]+)\<close>: its group.\<close>

definition is_num_char :: "char \<Rightarrow> bool" where
  "is_num_char c = (is_digit c \<or> c = CHR ''-'' \<or> c = CHR ''.'')"

fun search_eq_number :: "string \<Rightarrow> string option" where
  "search_eq_number [] = None"
| "search_eq_number (c # cs) =
     (if startswith (c # cs) ''= '' \<and> takeWhile is_num_char (drop 1 cs) \<noteq> []
      then Some (takeWhile is_num_char (drop 1 cs))
      else search_eq_number cs)"

text \<open>
  Third source: the metadata service of the operating system, when its command exists.
  With no file path the command line holds \<^verbatim>\<open>None\<close> and \<^verbatim>\<open>subprocess.run\<close> raises.
\<close>

definition gps_from_mdls :: "env \<Rightarrow> string option \<Rightarrow> gps_state \<Rightarrow> gps_state" where
  "gps_from_mdls ev file_path st =
     (if gps_missing st \<and> path_exists ev ''/usr/bin/mdls'' then
        (case file_path of
           None \<Rightarrow> st
         | Some p \<Rightarrow>
        (case run_mdls ev ''kMDItemLatitude'' p of
           None \<Rightarrow> st
         | Some lat_result \<Rightarrow>
        (case run_mdls ev ''kMDItemLongitude'' p of
           None \<Rightarrow> st
         | Some lon_result \<Rightarrow>
             if returncode lat_result = 0 \<and> returncode lon_result = 0 then
               (case (search_eq_number (py_strip (stdout lat_result)),
                      search_eq_number (py_strip (stdout lon_result))) of
                  (Some lat_match, Some lon_match) \<Rightarrow>
                    (case py_float (float_of_str ev) (PStr lat_match) of
                       Inl e \<Rightarrow> st
                     | Inr la \<Rightarrow>
                         (case py_float (float_of_str ev) (PStr lon_match) of
                            Inl e \<Rightarrow> (Some la, snd st)
                          | Inr lo \<Rightarrow> (Some la, Some lo)))
                | _ \<Rightarrow> st)
             else st)))
      else st)"

text \<open>Fourth source: a second run of the external tool, asking for the two coordinates only.\<close>

definition gps_direct_values :: "(string \<Rightarrow> real option) \<Rightarrow> pyval \<Rightarrow> gps_state \<Rightarrow> gps_state" where
  "gps_direct_values fl gps_data st =
     (case py_in ''GPSLatitude'' gps_data of
        Inl e \<Rightarrow> st
      | Inr has_lat \<Rightarrow>
          if \<not> has_lat then st
          else
     (case py_in ''GPSLongitude'' gps_data of
        Inl e \<Rightarrow> st
      | Inr has_lon \<Rightarrow>
          if \<not> has_lon then st
          else
     (case py_getitem gps_data ''GPSLatitude'' of
        Inl e \<Rightarrow> st
      | Inr lat \<Rightarrow>
     (case py_float fl lat of
        Inl e \<Rightarrow> st
      | Inr la \<Rightarrow>
     (case py_getitem gps_data ''GPSLongitude'' of
        Inl e \<Rightarrow> (Some la, snd st)
      | Inr lon \<Rightarrow>
     (case py_float fl lon of
        Inl e \<Rightarrow> (Some la, snd st)
      | Inr lo \<Rightarrow> (Some la, Some lo)))))))"

definition gps_from_direct :: "env \<Rightarrow> string option \<Rightarrow> gps_state \<Rightarrow> gps_state" where
  "gps_from_direct ev file_path st =
     (case file_path of
        None \<Rightarrow> st
      | Some p \<Rightarrow>
          if gps_missing st \<and> p \<noteq> [] then
            (case run_exiftool_gps ev p of
               None \<Rightarrow> st
             | Some result \<Rightarrow>
                 if returncode result = 0 \<and> stdout result \<noteq> [] then
                   (case json_loads ev (stdout result) of
                      None \<Rightarrow> st
                    | Some gps_data \<Rightarrow>
                        (case gps_data of
                           PList (d # ds) \<Rightarrow> gps_direct_values (float_of_str ev) d st
                         | _ \<Rightarrow> st))
                 else st)
          else st)"

text \<open>The final validation of the coordinates.\<close>

definition gps_in_range :: "real \<Rightarrow> real \<Rightarrow> bool" where
  "gps_in_range la lo = (- 90 \<le> la \<and> la \<le> 90 \<and> - 180 \<le> lo \<and> lo \<le> 180)"

definition gps_validate :: "gps_state \<Rightarrow> gps_state" where
  "gps_validate st =
     (case st of
        (Some la, Some lo) \<Rightarrow> if gps_in_range la lo then (Some la, Some lo) else (None, None)
      | _ \<Rightarrow> (None, None))"

text \<open>
  \<^verbatim>\<open>extract_gps_data(tags, exiftool_metadata, file_path)\<close>: the four sources in order, each
  one skipped unless a coordinate is still \<^verbatim>\<open>None\<close>, then the validation.
\<close>

definition gps_sources ::
    "env \<Rightarrow> (string \<times> exif_tag) list option \<Rightarrow> string option \<Rightarrow> gps_state \<Rightarrow> gps_state" where
  "gps_sources ev tags file_path st =
     gps_from_direct ev file_path (gps_from_mdls ev file_path (gps_from_tags (float_of_str ev) tags st))"

definition extract_gps_data ::
    "env \<Rightarrow> (string \<times> exif_tag) list option \<Rightarrow> pyval \<Rightarrow> string option \<Rightarrow> py_error + gps_state" where
  "extract_gps_data ev tags exiftool_metadata file_path =
     (case gps_from_exiftool (float_of_str ev) exiftool_metadata (None, None) of
        Inl e \<Rightarrow> Inl e
      | Inr st \<Rightarrow> Inr (gps_validate (gps_sources ev tags file_path st)))"

section \<open>Orientation resolver\<close>

definition orientation_fields :: "string list" where
  "orientation_fields =
     [''EXIF:GPSImgDirection'', ''XMP:GPSImgDirection'', ''GPS:GPSImgDirection'',
      ''GPS:ImgDirection'', ''EXIF:GPSDestBearing'', ''XMP:GPSDestBearing'']"

definition orientation_tags :: "string list" where
  "orientation_tags = [''GPS GPSImgDirection'', ''GPS GPSDestBearing'']"

text \<open>
  The loop over the fields of the external tool. The membership test and the lookup are
  outside the \<^verbatim>\<open>try\<close>; the handler of the conversion is
  \<^verbatim>\<open>except (ValueError, TypeError): continue\<close>.
\<close>

fun orientation_exiftool ::
    "(string \<Rightarrow> real option) \<Rightarrow> pyval \<Rightarrow> string list \<Rightarrow> py_error + real option" where
  "orientation_exiftool fl md [] = Inr None"
| "orientation_exiftool fl md (field # rest) =
     (case py_in field md of
        Inl e \<Rightarrow> Inl e
      | Inr present \<Rightarrow>
          if \<not> present then orientation_exiftool fl md rest
          else
            (case py_getitem md field of
               Inl e \<Rightarrow> Inl e
             | Inr v \<Rightarrow>
                 if v = PNone then orientation_exiftool fl md rest
                 else
                   (case py_float fl v of
                      Inr x \<Rightarrow> Inr (Some x)
                    | Inl e \<Rightarrow>
                        if e \<in> set [ValueError, TypeError] then orientation_exiftool fl md rest
                        else Inl e)))"

text \<open>
  The loop over the embedded tags: \<^verbatim>\<open>tags[tag].values[0]\<close> and its conversion are
  inside a \<^verbatim>\<open>try\<close> whose handler is \<^verbatim>\<open>except (ValueError, TypeError, IndexError): continue\<close>.
\<close>

fun orientation_exif ::
    "(string \<Rightarrow> real option) \<Rightarrow> (string \<times> exif_tag) list \<Rightarrow> string list \<Rightarrow> py_error + real option" where
  "orientation_exif fl kvs [] = Inr None"
| "orientation_exif fl kvs (tag # rest) =
     (case map_of kvs tag of
        None \<Rightarrow> orientation_exif fl kvs rest
      | Some t \<Rightarrow>
          (case (case py_first (tvalues t) of Inl e \<Rightarrow> Inl e | Inr v \<Rightarrow> py_float fl v) of
             Inr x \<Rightarrow> Inr (Some x)
           | Inl e \<Rightarrow>
               if e \<in> set [ValueError, TypeError, IndexError] then orientation_exif fl kvs rest
               else Inl e))"

text \<open>\<^verbatim>\<open>extract_orientation_data(tags, exiftool_metadata)\<close>\<close>

definition extract_orientation_data ::
    "(string \<Rightarrow> real option) \<Rightarrow> (string \<times> exif_tag) list option \<Rightarrow> pyval
       \<Rightarrow> py_error + real option" where
  "extract_orientation_data fl tags exiftool_metadata =
     (case (if py_truthy exiftool_metadata
            then orientation_exiftool fl exiftool_metadata orientation_fields
            else Inr None) of
        Inl e \<Rightarrow> Inl e
      | Inr found \<Rightarrow>
          (case tags of
             Some kvs \<Rightarrow>
               if found = None \<and> kvs \<noteq> [] then orientation_exif fl kvs orientation_tags
               else Inr found
           | None \<Rightarrow> Inr found))"

section \<open>Caption resolver\<close>

subsection \<open>Paths and patterns\<close>

text \<open>\<^verbatim>\<open>os.path.basename\<close> and the root of \<^verbatim>\<open>os.path.splitext\<close>, for the separator \<^verbatim>\<open>/\<close>.\<close>

definition basename :: "string \<Rightarrow> string" where
  "basename p = rev (takeWhile (\<lambda>c. c \<noteq> CHR ''/'') (rev p))"

text \<open>
  The extension starts at the last dot of the last path component, unless only dots come
  before it in that component.
\<close>

definition splitext_root :: "string \<Rightarrow> string" where
  "splitext_root p =
     (let base = basename p;
          ext = rev (takeWhile (\<lambda>c. c \<noteq> CHR ''.'') (rev base));
          stem = take (length base - length ext - 1) base
      in if CHR ''.'' \<in> set base \<and> (\<exists>c \<in> set stem. c \<noteq> CHR ''.'')
         then take (length p - length ext - 1) p
         else p)"

text \<open>
  \<^verbatim>\<open>re.search\<close> returns the leftmost match. In each pattern below the repeated character
  class is followed by a character outside the class, so at a given start there is at most
  one way to match and no backtracking to model. Every function returns group 1.
\<close>

definition not_quote :: "char \<Rightarrow> bool" where
  "not_quote c = (c \<noteq> CHR 0x22)"

text \<open>The pattern \<^verbatim>\<open>"([^"]+)"\<close> matched at the start of \<open>CHR 0x22 # cs\<close>, given \<open>cs\<close>.\<close>

definition quoted_run :: "string \<Rightarrow> string option" where
  "quoted_run cs =
     (if takeWhile not_quote cs \<noteq> [] \<and> dropWhile not_quote cs \<noteq> []
      then Some (takeWhile not_quote cs) else None)"

fun search_quoted :: "string \<Rightarrow> string option" where
  "search_quoted [] = None"
| "search_quoted (c # cs) =
     (if c = CHR 0x22 then
        (case quoted_run cs of Some g \<Rightarrow> Some g | None \<Rightarrow> search_quoted cs)
      else search_quoted cs)"

text \<open>The pattern \<^verbatim>\<open>"[dD]escription"\s*:\s*"([^"]+)"\<close>\<close>

definition match_description :: "string \<Rightarrow> string option" where
  "match_description s =
     (if startswith s ([CHR 0x22] @ ''description'' @ [CHR 0x22])
         \<or> startswith s ([CHR 0x22] @ ''Description'' @ [CHR 0x22]) then
        (case dropWhile is_space (drop 13 s) of
           [] \<Rightarrow> None
         | c # r \<Rightarrow>
             if c = CHR '':'' then
               (case dropWhile is_space r of
                  [] \<Rightarrow> None
                | q # r' \<Rightarrow> if q = CHR 0x22 then quoted_run r' else None)
             else None)
      else None)"

fun search_description :: "string \<Rightarrow> string option" where
  "search_description [] = None"
| "search_description (c # cs) =
     (case match_description (c # cs) of
        Some g \<Rightarrow> Some g
      | None \<Rightarrow> search_description cs)"

text \<open>The pattern \<^verbatim>\<open><string name="description">([^<]+)</string>\<close>\<close>

definition aae_open :: string where
  "aae_open = ''<string name='' @ [CHR 0x22] @ ''description'' @ [CHR 0x22] @ ''>''"

definition match_aae :: "string \<Rightarrow> string option" where
  "match_aae s =
     (if startswith s aae_open then
        (let r = drop (length aae_open) s;
             g = takeWhile (\<lambda>c. c \<noteq> CHR ''<'') r
         in if g \<noteq> [] \<and> startswith (dropWhile (\<lambda>c. c \<noteq> CHR ''<'') r) ''</string>''
            then Some g else None)
      else None)"

fun search_aae :: "string \<Rightarrow> string option" where
  "search_aae [] = None"
| "search_aae (c # cs) =
     (case match_aae (c # cs) of
        Some g \<Rightarrow> Some g
      | None \<Rightarrow> search_aae cs)"

text \<open>
  The pattern \<^verbatim>\<open>(\d{4})[-_]?(\d{2})[-_]?(\d{2})\<close>: the three groups. An optional
  separator that is there is always taken, since a digit must follow it.
\<close>

definition all_digits :: "nat \<Rightarrow> string \<Rightarrow> bool" where
  "all_digits n s = (length s = n \<and> (\<forall>c \<in> set s. is_digit c))"

definition skip_sep :: "string \<Rightarrow> string" where
  "skip_sep s = (case s of [] \<Rightarrow> [] | c # r \<Rightarrow> if c = CHR ''-'' \<or> c = CHR ''_'' then r else s)"

definition match_date :: "string \<Rightarrow> (string \<times> string \<times> string) option" where
  "match_date s =
     (let y = take 4 s; r1 = skip_sep (drop 4 s);
          m = take 2 r1; r2 = skip_sep (drop 2 r1);
          d = take 2 r2
      in if all_digits 4 y \<and> all_digits 2 m \<and> all_digits 2 d then Some (y, m, d) else None)"

fun search_date :: "string \<Rightarrow> (string \<times> string \<times> string) option" where
  "search_date [] = None"
| "search_date (c # cs) =
     (case match_date (c # cs) of
        Some g \<Rightarrow> Some g
      | None \<Rightarrow> search_date cs)"

subsection \<open>Dates\<close>

text \<open>\<^verbatim>\<open>int(s)\<close> for a string of decimal digits.\<close>

definition digit_val :: "char \<Rightarrow> nat" where
  "digit_val c =
     (case map_of (zip ''0123456789'' [0, 1, 2, 3, 4, 5, 6, 7, 8, 9]) c of
        Some n \<Rightarrow> n
      | None \<Rightarrow> 0)"

definition int_of_digits :: "string \<Rightarrow> nat" where
  "int_of_digits s = foldl (\<lambda>n c. 10 * n + digit_val c) 0 s"

definition is_leap :: "nat \<Rightarrow> bool" where
  "is_leap y = (y mod 4 = 0 \<and> (y mod 100 \<noteq> 0 \<or> y mod 400 = 0))"

definition days_in_month :: "nat \<Rightarrow> nat \<Rightarrow> nat" where
  "days_in_month y m =
     (if m = 2 then (if is_leap y then 29 else 28)
      else if m \<in> set [4, 6, 9, 11] then 30
      else 31)"

text \<open>
  \<^verbatim>\<open>datetime(year, month, day)\<close> raises \<^verbatim>\<open>ValueError\<close> unless the year is in 1..9999, the
  month in 1..12 and the day in the month.
\<close>

definition py_datetime :: "nat \<Rightarrow> nat \<Rightarrow> nat \<Rightarrow> py_error + nat \<times> nat \<times> nat" where
  "py_datetime y m d =
     (if 1 \<le> y \<and> y \<le> 9999 \<and> 1 \<le> m \<and> m \<le> 12 \<and> 1 \<le> d \<and> d \<le> days_in_month y m
      then Inr (y, m, d) else Inl ValueError)"

definition month_names :: "string list" where
  "month_names =
     [''January'', ''February'', ''March'', ''April'', ''May'', ''June'', ''July'',
      ''August'', ''September'', ''October'', ''November'', ''December'']"

definition digit_char :: "nat \<Rightarrow> char" where
  "digit_char n = ''0123456789'' ! n"

text \<open>
  \<^verbatim>\<open>date_obj.strftime("%B %d, %Y")\<close> in the default locale: the full month name, the day
  as two digits, the year in decimal, padded to four digits or not.
\<close>

definition year_text :: "bool \<Rightarrow> nat \<Rightarrow> string" where
  "year_text pad y =
     (let ds = [digit_char (y div 1000), digit_char (y div 100 mod 10),
                digit_char (y div 10 mod 10), digit_char (y mod 10)]
      in if pad then ds else dropWhile (\<lambda>c. c = CHR ''0'') ds)"

definition strftime_B_d_Y :: "bool \<Rightarrow> nat \<times> nat \<times> nat \<Rightarrow> string" where
  "strftime_B_d_Y pad date =
     (case date of (y, m, d) \<Rightarrow>
        month_names ! (m - 1) @ '' '' @ [digit_char (d div 10), digit_char (d mod 10)]
          @ '', '' @ year_text pad y)"

subsection \<open>Filename fallback\<close>

text \<open>
  The caption made from the file name alone: the extension removed, a leading
  \<^verbatim>\<open>IMG_\<close> removed, every underscore replaced by a space.
\<close>

definition clean_name :: "string \<Rightarrow> string" where
  "clean_name fname =
     (let filename_without_ext = splitext_root fname;
          stripped = (if startswith filename_without_ext ''IMG_''
                      then drop 4 filename_without_ext else filename_without_ext)
      in map (\<lambda>c. if c = CHR ''_'' then CHR '' '' else c) stripped)"

text \<open>
  The fallback of \<^verbatim>\<open>extract_metadata_from_photo\<close>, taken when
  \<^verbatim>\<open>not photo_data['caption']\<close> holds after the cascade. The bare \<^verbatim>\<open>except:\<close> around the
  date turns the \<^verbatim>\<open>ValueError\<close> of \<^verbatim>\<open>datetime\<close> into the file-name caption.
\<close>

definition filename_caption :: "bool \<Rightarrow> string \<Rightarrow> string" where
  "filename_caption pad fname =
     (case search_date fname of
        Some (year, month, day) \<Rightarrow>
          (case py_datetime (int_of_digits year) (int_of_digits month) (int_of_digits day) of
             Inr date_obj \<Rightarrow> ''Photo taken on '' @ strftime_B_d_Y pad date_obj
           | Inl e \<Rightarrow> clean_name fname)
      | None \<Rightarrow> clean_name fname)"

subsection \<open>The cascade\<close>

definition description_fields :: "string list" where
  "description_fields =
     [''EXIF:ImageDescription'', ''XMP:Description'', ''XMP:Title'', ''XMP:Headline'',
      ''XMP:Caption'', ''XMP:CaptionWriter'', ''IPTC:Caption-Abstract'', ''IPTC:Headline'',
      ''QuickTime:Title'', ''QuickTime:Description'', ''Apple:Description'']"

text \<open>
  The loop over \<open>description_fields\<close> for a HEIC file: the first field that is in the
  metadata with a truthy value. The value is stored as it is. The loop is outside any
  \<^verbatim>\<open>try\<close>: \<open>Inl e\<close> is an exception that leaves \<^verbatim>\<open>extract_metadata_from_photo\<close>.
\<close>

fun heic_caption :: "pyval \<Rightarrow> string list \<Rightarrow> py_error + pyval option" where
  "heic_caption md [] = Inr None"
| "heic_caption md (field # rest) =
     (case py_in field md of
        Inl e \<Rightarrow> Inl e
      | Inr present \<Rightarrow>
          if \<not> present then heic_caption md rest
          else
            (case py_getitem md field of
               Inl e \<Rightarrow> Inl e
             | Inr v \<Rightarrow> if py_truthy v then Inr (Some v) else heic_caption md rest))"

text \<open>The first pair of the diagnostic list whose value is not blank: the value, stripped.\<close>

fun first_nonblank :: "(string \<times> string) list \<Rightarrow> string option" where
  "first_nonblank [] = None"
| "first_nonblank ((tag_name, v) # rest) =
     (if v \<noteq> [] \<and> py_strip v \<noteq> [] then Some (py_strip v) else first_nonblank rest)"

definition caption_tags :: "string list" where
  "caption_tags =
     [''Image ImageDescription'', ''EXIF UserComment'', ''XMP:Description'',
      ''IPTC:Caption-Abstract'', ''EXIF:ImageDescription'', ''EXIF:UserComment'',
      ''EXIF:XPComment'', ''EXIF:XPSubject'', ''EXIF:XPTitle'', ''EXIF:Description'',
      ''EXIF:Subject'']"

fun first_caption_tag :: "(string \<times> exif_tag) list \<Rightarrow> string list \<Rightarrow> string option" where
  "first_caption_tag kvs [] = None"
| "first_caption_tag kvs (tag # rest) =
     (case map_of kvs tag of
        None \<Rightarrow> first_caption_tag kvs rest
      | Some t \<Rightarrow>
          if py_strip (printable t) \<noteq> [] then Some (py_strip (printable t))
          else first_caption_tag kvs rest)"

definition set_caption :: "string option \<Rightarrow> photo_data \<Rightarrow> photo_data" where
  "set_caption found pd = (case found of None \<Rightarrow> pd | Some c \<Rightarrow> pd\<lparr>caption := PStr c\<rparr>)"

text \<open>
  Opening a HEIC image: the dimensions are stored first, the path of the converted copy
  only after the copy was written. An exception at either point is caught and printed.
\<close>

definition heic_dimensions :: "env \<Rightarrow> photo_data \<Rightarrow> photo_data" where
  "heic_dimensions ev pd =
     (case image_size ev (path pd) of
        None \<Rightarrow> pd
      | Some (w, h) \<Rightarrow>
          (case heic_to_jpeg ev (path pd) of
             None \<Rightarrow> pd\<lparr>width := Some w, height := Some h\<rparr>
           | Some tmp \<Rightarrow> pd\<lparr>width := Some w, height := Some h, temp_file := Some tmp\<rparr>))"

text \<open>
  The embedded tags of a file that is not HEIC, and the diagnostic list for both kinds.
  For a file that is not HEIC the diagnostic list is only used when the tags could be read.
\<close>

definition tags_step :: "env \<Rightarrow> bool \<Rightarrow> photo_data \<Rightarrow> photo_data" where
  "tags_step ev is_heic pd =
     (if \<not> is_heic then
        (case exif_tags ev (path pd) of
           None \<Rightarrow> pd
         | Some kvs \<Rightarrow>
             (let pd1 = set_caption (first_nonblank (debug_tags ev (path pd))) pd
              in if \<not> py_truthy (caption pd1)
                 then set_caption (first_caption_tag kvs caption_tags) pd1
                 else pd1))
      else set_caption (first_nonblank (debug_tags ev (path pd))) pd)"

text \<open>
  One query of the metadata service for a named attribute: the quoted value of its output,
  if the command succeeded and the output names the attribute and not \<^verbatim>\<open>(null)\<close>.
\<close>

definition mdls_value :: "string \<Rightarrow> proc_result \<Rightarrow> string option" where
  "mdls_value attr result =
     (if returncode result = 0 \<and> stdout result \<noteq> [] then
        (let output = py_strip (stdout result)
         in if str_contains attr output \<and> \<not> str_contains ''(null)'' output
            then search_quoted output else None)
      else None)"

definition caption_fields :: "string list" where
  "caption_fields = [''kMDItemTitle'', ''kMDItemSubject'', ''kMDItemComment'', ''kMDItemHeadline'']"

text \<open>A query that raises ends the whole step: the handler is around both loops.\<close>

fun mdls_fields :: "env \<Rightarrow> string list \<Rightarrow> photo_data \<Rightarrow> photo_data" where
  "mdls_fields ev [] pd = pd"
| "mdls_fields ev (field # rest) pd =
     (case run_mdls ev field (path pd) of
        None \<Rightarrow> pd
      | Some result \<Rightarrow>
          (case mdls_value field result of
             Some g \<Rightarrow> pd\<lparr>caption := PStr g\<rparr>
           | None \<Rightarrow> mdls_fields ev rest pd))"

definition mdls_step :: "env \<Rightarrow> photo_data \<Rightarrow> photo_data" where
  "mdls_step ev pd =
     (if \<not> py_truthy (caption pd) \<and> path_exists ev ''/usr/bin/mdls'' then
        (case run_mdls ev ''kMDItemDescription'' (path pd) of
           None \<Rightarrow> pd
         | Some result \<Rightarrow>
             (let pd1 = set_caption (mdls_value ''kMDItemDescription'' result) pd
              in if \<not> py_truthy (caption pd1) then mdls_fields ev caption_fields pd1 else pd1))
      else pd)"

definition sips_step :: "env \<Rightarrow> photo_data \<Rightarrow> photo_data" where
  "sips_step ev pd =
     (if \<not> py_truthy (caption pd) \<and> path_exists ev ''/usr/bin/sips'' then
        (case run_sips ev (path pd) of
           None \<Rightarrow> pd
         | Some result \<Rightarrow>
             if returncode result = 0 \<and> stdout result \<noteq> []
                \<and> str_contains ''description'' (py_lower (stdout result))
             then set_caption (search_description (stdout result)) pd
             else pd)
      else pd)"

definition aae_step :: "env \<Rightarrow> photo_data \<Rightarrow> photo_data" where
  "aae_step ev pd =
     (let aae_path = splitext_root (path pd) @ ''.AAE''
      in if \<not> py_truthy (caption pd) \<and> path_exists ev aae_path then
           (case read_text ev aae_path of
              None \<Rightarrow> pd
            | Some aae_content \<Rightarrow> set_caption (search_aae aae_content) pd)
         else pd)"

text \<open>
  The block under \<^verbatim>\<open>if not photo_data['caption']:\<close>. Its outer \<^verbatim>\<open>try\<close> catches the one
  exception no inner handler catches: opening an image that is not HEIC to read its size,
  after which the rest of the block is skipped.
\<close>

definition caption_block :: "env \<Rightarrow> bool \<Rightarrow> photo_data \<Rightarrow> photo_data" where
  "caption_block ev is_heic pd =
     (if is_heic then
        aae_step ev (sips_step ev (mdls_step ev (tags_step ev is_heic (heic_dimensions ev pd))))
      else
        (case image_size ev (path pd) of
           None \<Rightarrow> pd
         | Some (w, h) \<Rightarrow>
             aae_step ev (sips_step ev (mdls_step ev
               (tags_step ev is_heic (pd\<lparr>width := Some w, height := Some h\<rparr>))))))"

definition filename_step :: "env \<Rightarrow> photo_data \<Rightarrow> photo_data" where
  "filename_step ev pd =
     (if \<not> py_truthy (caption pd)
      then pd\<lparr>caption := PStr (filename_caption (pad_year ev) (filename pd))\<rparr>
      else pd)"

section \<open>Photo record orchestrator\<close>

definition new_photo_data :: "string \<Rightarrow> photo_data" where
  "new_photo_data photo_path =
     \<lparr>path = photo_path, filename = basename photo_path, caption = PNone, temp_file = None,
      width = None, height = None, latitude = None, longitude = None, orientation = None\<rparr>"

definition is_heic_path :: "string \<Rightarrow> bool" where
  "is_heic_path photo_path = endswith (py_lower photo_path) ''.heic''"

text \<open>The caption part of \<^verbatim>\<open>extract_metadata_from_photo\<close>, up to the filename fallback.\<close>

definition resolve_caption :: "env \<Rightarrow> string \<Rightarrow> py_error + photo_data" where
  "resolve_caption ev photo_path =
     (let pd = new_photo_data photo_path; is_heic = is_heic_path photo_path
      in case (if is_heic
               then heic_caption (get_heic_metadata_with_exiftool ev photo_path) description_fields
               else Inr None) of
           Inl e \<Rightarrow> Inl e
         | Inr found \<Rightarrow>
             (let pd1 = (case found of None \<Rightarrow> pd | Some v \<Rightarrow> pd\<lparr>caption := v\<rparr>);
                  pd2 = (if \<not> py_truthy (caption pd1) then caption_block ev is_heic pd1 else pd1)
              in Inr (filename_step ev pd2)))"

text \<open>The tags read again for the GPS and orientation resolvers: none for a HEIC file.\<close>

definition gps_tags :: "env \<Rightarrow> string \<Rightarrow> (string \<times> exif_tag) list option" where
  "gps_tags ev photo_path = (if \<not> is_heic_path photo_path then exif_tags ev photo_path else None)"

definition store_gps :: "gps_state \<Rightarrow> photo_data \<Rightarrow> photo_data" where
  "store_gps st pd =
     (case st of
        (Some la, Some lo) \<Rightarrow> pd\<lparr>latitude := Some la, longitude := Some lo\<rparr>
      | _ \<Rightarrow> pd)"

definition store_orientation :: "real option \<Rightarrow> photo_data \<Rightarrow> photo_data" where
  "store_orientation found pd =
     (case found of None \<Rightarrow> pd | Some x \<Rightarrow> pd\<lparr>orientation := Some x\<rparr>)"

text \<open>
  \<^verbatim>\<open>extract_metadata_from_photo(photo_path)\<close>: the record, or the exception that leaves
  the function.
\<close>

definition extract_metadata_from_photo :: "env \<Rightarrow> string \<Rightarrow> py_error + photo_data" where
  "extract_metadata_from_photo ev photo_path =
     (case resolve_caption ev photo_path of
        Inl e \<Rightarrow> Inl e
      | Inr pd \<Rightarrow>
          (let exiftool_metadata = get_heic_metadata_with_exiftool ev photo_path;
               tags = gps_tags ev photo_path
           in case extract_gps_data ev tags exiftool_metadata (Some photo_path) of
                Inl e \<Rightarrow> Inl e
              | Inr st \<Rightarrow>
                  (case extract_orientation_data (float_of_str ev) tags exiftool_metadata of
                     Inl e \<Rightarrow> Inl e
                   | Inr found \<Rightarrow> Inr (store_orientation found (store_gps st pd)))))"

text \<open>
  \<^verbatim>\<open>extract_metadata_from_photos(photo_paths)\<close>: the loop appends one record per path;
  nothing in it catches an exception.
\<close>

fun photos_loop :: "env \<Rightarrow> photo_data list \<Rightarrow> string list \<Rightarrow> py_error + photo_data list" where
  "photos_loop ev photo_data_list [] = Inr photo_data_list"
| "photos_loop ev photo_data_list (photo_path # rest) =
     (case extract_metadata_from_photo ev photo_path of
        Inl e \<Rightarrow> Inl e
      | Inr pd \<Rightarrow> photos_loop ev (photo_data_list @ [pd]) rest)"

definition extract_metadata_from_photos :: "env \<Rightarrow> string list \<Rightarrow> py_error + photo_data list" where
  "extract_metadata_from_photos ev photo_paths = photos_loop ev [] photo_paths"

section \<open>Concrete inputs\<close>

text \<open>
  Environments and values at which the definitions above are evaluated. \<open>env_none\<close> is a
  machine where nothing is available: no external tool, no metadata service, no readable
  image. The output of a subprocess is a token that \<open>json_loads\<close> maps to the parsed value.
\<close>

definition env_none :: env where
  "env_none =
     \<lparr>float_of_str = (\<lambda>s. None), json_loads = (\<lambda>s. None), run_exiftool = (\<lambda>p. None),
      run_exiftool_gps = (\<lambda>p. None), run_mdls = (\<lambda>a p. None), run_sips = (\<lambda>p. None),
      path_exists = (\<lambda>p. False), read_text = (\<lambda>p. None), image_size = (\<lambda>p. None),
      heic_to_jpeg = (\<lambda>p. None), exif_tags = (\<lambda>p. None), debug_tags = (\<lambda>p. []),
      pad_year = True\<rparr>"

text \<open>A JPEG for which the external tool reports a position in Sydney and a bearing.\<close>

definition env_sydney :: env where
  "env_sydney = env_none
     \<lparr>run_exiftool := (\<lambda>p. Some \<lparr>returncode = 0, stdout = ''<json>''\<rparr>),
      json_loads := (\<lambda>s. Some (PList [PDict
         [(''Composite:GPSLatitude'', PNum (- 33.5)), (''Composite:GPSLongitude'', PNum 151.25),
          (''GPS:GPSImgDirection'', PNum 127.5)]])),
      image_size := (\<lambda>p. Some (640, 480))\<rparr>"

text \<open>Two records of a batch result: a HEIC photo with a converted copy, a JPEG without.\<close>

definition pd_tmp :: photo_data where
  "pd_tmp = \<lparr>path = ''/in/IMG_1.heic'', filename = ''IMG_1.heic'', caption = PStr ''Pier'',
              temp_file = Some ''/tmp/tmp8a.jpg'', width = Some 4032, height = Some 3024,
              latitude = None, longitude = None, orientation = None\<rparr>"

definition pd_plain :: photo_data where
  "pd_plain = \<lparr>path = ''/in/b.jpg'', filename = ''b.jpg'', caption = PStr ''b'',
                temp_file = None, width = Some 640, height = Some 480,
                latitude = None, longitude = None, orientation = None\<rparr>"

text \<open>
  Metadata of the external tool with a latitude outside the valid range, and embedded tags
  with a position in Paris.
\<close>

definition md_out_of_range :: pyval where
  "md_out_of_range =
     PDict [(''Composite:GPSLatitude'', PNum 95), (''Composite:GPSLongitude'', PNum 10)]"

definition tags_paris :: "(string \<times> exif_tag) list option" where
  "tags_paris = Some
     [(''GPS GPSLatitude'', \<lparr>printable = ''[48, 51, 30]'',
          tvalues = PList [PRatio 48 1, PRatio 51 1, PRatio 30 1]\<rparr>),
      (''GPS GPSLatitudeRef'', \<lparr>printable = ''N'', tvalues = PStr ''N''\<rparr>),
      (''GPS GPSLongitude'', \<lparr>printable = ''[2, 17, 40]'',
          tvalues = PList [PRatio 2 1, PRatio 17 1, PRatio 40 1]\<rparr>),
      (''GPS GPSLongitudeRef'', \<lparr>printable = ''E'', tvalues = PStr ''E''\<rparr>)]"


text \<open>
  A HEIC photo whose description, as the external tool reports it, has blanks around it,
  and a JPEG with the same description in an embedded tag.
\<close>

definition env_dinner :: env where
  "env_dinner = env_none
     \<lparr>run_exiftool := (\<lambda>p. Some \<lparr>returncode = 0, stdout = ''<json>''\<rparr>),
      json_loads := (\<lambda>s. Some (PList [PDict
         [(''QuickTime:Description'', PStr ''  Family dinner  '')]])),
      image_size := (\<lambda>p. Some (4032, 3024)),
      heic_to_jpeg := (\<lambda>p. Some ''/tmp/tmpk3v9.jpg'')\<rparr>"

definition env_dinner_embedded :: env where
  "env_dinner_embedded = env_none
     \<lparr>image_size := (\<lambda>p. Some (4032, 3024)),
      exif_tags := (\<lambda>p. Some [(''Image ImageDescription'',
          \<lparr>printable = ''  Family dinner  '', tvalues = PStr ''  Family dinner  ''\<rparr>)])\<rparr>"

text \<open>
  A HEIC photo that can be opened and converted, with a description reported by the
  external tool, and the same photo without any description.
\<close>

definition env_sunset :: env where
  "env_sunset = env_none
     \<lparr>run_exiftool := (\<lambda>p. Some \<lparr>returncode = 0, stdout = ''<json>''\<rparr>),
      json_loads := (\<lambda>s. Some (PList [PDict [(''QuickTime:Title'', PStr ''Sunset'')]])),
      image_size := (\<lambda>p. Some (4032, 3024)),
      heic_to_jpeg := (\<lambda>p. Some ''/tmp/tmpk3v9.jpg'')\<rparr>"

definition env_sunset_untitled :: env where
  "env_sunset_untitled = env_sunset\<lparr>json_loads := (\<lambda>s. Some (PList [PDict []]))\<rparr>"





section \<open>Properties\<close>

text \<open>The equations that evaluate the model at a concrete input.\<close>

lemmas model_defs =
  env_none_def
  extract_metadata_from_photo_def resolve_caption_def new_photo_data_def is_heic_path_def
  get_heic_metadata_with_exiftool_def caption_block_def tags_step_def mdls_step_def sips_step_def
  aae_step_def filename_step_def filename_caption_def clean_name_def splitext_root_def basename_def
  match_date_def all_digits_def skip_sep_def is_digit_def
  gps_tags_def extract_gps_data_def gps_from_exiftool_def gps_keys_def gps_try_def gps_pair_def
  gps_position_def gps_ref_of_def gps_coord_def convert_gps_to_decimal_def gps_decimal_def
  dms_decimal_def gps_missing_def gps_sources_def gps_from_tags_def gps_from_mdls_def
  gps_from_direct_def gps_direct_values_def gps_validate_def gps_in_range_def tags_truthy_def
  extract_orientation_data_def orientation_fields_def orientation_tags_def
  store_gps_def store_orientation_def set_caption_def heic_dimensions_def
  endswith_def startswith_def py_lower_def lower_char_def py_strip_def is_space_def
  description_fields_def caption_tags_def extract_metadata_from_photos_def Let_def

subsection \<open>What each step of the caption cascade may change\<close>

text \<open>
  The steps after the image was opened only write the caption; the whole block under
  \<^verbatim>\<open>if not photo_data['caption']:\<close> writes the caption, the dimensions and the temporary
  file, and so does the caption part of \<open>extract_metadata_from_photo\<close> as a whole.
\<close>

lemma set_caption_frame: "\<exists>c. set_caption found pd = pd\<lparr>caption := c\<rparr>"
  by (cases found) (auto simp: set_caption_def intro: exI[of _ "caption pd"])

lemma mdls_fields_frame: "\<exists>c. mdls_fields ev fs pd = pd\<lparr>caption := c\<rparr>"
proof (induction fs)
  case Nil
  show ?case by (auto intro: exI[of _ "caption pd"])
next
  case (Cons f fs)
  then show ?case by (auto split: option.splits intro: exI[of _ "caption pd"])
qed

lemma tags_step_frame: "\<exists>c. tags_step ev h pd = pd\<lparr>caption := c\<rparr>"
  by (auto simp: tags_step_def set_caption_def Let_def split: option.splits
           intro: exI[of _ "caption pd"])

lemma mdls_step_frame: "\<exists>c. mdls_step ev pd = pd\<lparr>caption := c\<rparr>"
proof -
  have "\<exists>c. mdls_fields ev fs (set_caption f pd) = pd\<lparr>caption := c\<rparr>" for fs f
    using mdls_fields_frame[of ev fs "set_caption f pd"] set_caption_frame[of f pd] by auto
  moreover have "\<exists>c. pd = pd\<lparr>caption := c\<rparr>" by (auto intro: exI[of _ "caption pd"])
  ultimately show ?thesis
    using set_caption_frame[of _ pd]
    by (auto simp: mdls_step_def Let_def split: option.splits)
qed

lemma sips_step_frame: "\<exists>c. sips_step ev pd = pd\<lparr>caption := c\<rparr>"
  using set_caption_frame[of _ pd]
  by (auto simp: sips_step_def split: option.splits intro: exI[of _ "caption pd"])

lemma aae_step_frame: "\<exists>c. aae_step ev pd = pd\<lparr>caption := c\<rparr>"
  using set_caption_frame[of _ pd]
  by (auto simp: aae_step_def Let_def split: option.splits intro: exI[of _ "caption pd"])

lemma filename_step_frame: "\<exists>c. filename_step ev pd = pd\<lparr>caption := c\<rparr>"
  by (auto simp: filename_step_def intro: exI[of _ "caption pd"])

lemma later_steps_frame:
  "\<exists>c. aae_step ev (sips_step ev (mdls_step ev (tags_step ev h pd))) = pd\<lparr>caption := c\<rparr>"
proof -
  obtain c1 where 1: "tags_step ev h pd = pd\<lparr>caption := c1\<rparr>" using tags_step_frame by blast
  obtain c2 where 2: "mdls_step ev (pd\<lparr>caption := c1\<rparr>) = pd\<lparr>caption := c1\<rparr>\<lparr>caption := c2\<rparr>"
    using mdls_step_frame by blast
  obtain c3 where 3: "sips_step ev (pd\<lparr>caption := c2\<rparr>) = pd\<lparr>caption := c2\<rparr>\<lparr>caption := c3\<rparr>"
    using sips_step_frame by blast
  obtain c4 where 4: "aae_step ev (pd\<lparr>caption := c3\<rparr>) = pd\<lparr>caption := c3\<rparr>\<lparr>caption := c4\<rparr>"
    using aae_step_frame by blast
  have "aae_step ev (sips_step ev (mdls_step ev (tags_step ev h pd))) = pd\<lparr>caption := c4\<rparr>"
    using 1 2 3 4 by simp
  then show ?thesis by blast
qed

lemma caption_block_frame:
  "\<exists>c w h t. caption_block ev is_heic pd = pd\<lparr>caption := c, temp_file := t, width := w, height := h\<rparr>"
proof -
  have id: "pd = pd\<lparr>caption := caption pd, temp_file := temp_file pd, width := width pd, height := height pd\<rparr>"
    by simp
  have hd: "\<exists>w h t. heic_dimensions ev pd = pd\<lparr>temp_file := t, width := w, height := h\<rparr>"
  proof (cases "image_size ev (path pd)")
    case None
    have "pd = pd\<lparr>temp_file := temp_file pd, width := width pd, height := height pd\<rparr>" by simp
    with None show ?thesis unfolding heic_dimensions_def by (metis option.simps(4))
  next
    case (Some wh)
    obtain w h where wh: "wh = (w, h)" by (cases wh)
    show ?thesis
    proof (cases "heic_to_jpeg ev (path pd)")
      case None
      have "pd\<lparr>width := Some w, height := Some h\<rparr> = pd\<lparr>temp_file := temp_file pd, width := Some w, height := Some h\<rparr>"
        by simp
      with None Some wh show ?thesis unfolding heic_dimensions_def by (simp; blast)
    next
      case (Some tmp)
      have "pd\<lparr>width := Some w, height := Some h, temp_file := Some tmp\<rparr> = pd\<lparr>temp_file := Some tmp, width := Some w, height := Some h\<rparr>"
        by simp
      with Some \<open>image_size ev (path pd) = Some wh\<close> wh show ?thesis
        unfolding heic_dimensions_def by (simp; blast)
    qed
  qed
  show ?thesis
  proof (cases is_heic)
    case True
    obtain w h t where 1: "heic_dimensions ev pd = pd\<lparr>temp_file := t, width := w, height := h\<rparr>"
      using hd by blast
    obtain c where "aae_step ev (sips_step ev (mdls_step ev (tags_step ev True (heic_dimensions ev pd))))
        = (heic_dimensions ev pd)\<lparr>caption := c\<rparr>"
      using later_steps_frame by blast
    with 1 True have "caption_block ev is_heic pd = pd\<lparr>caption := c, temp_file := t, width := w, height := h\<rparr>"
      by (simp add: caption_block_def)
    then show ?thesis by blast
  next
    case False
    show ?thesis
    proof (cases "image_size ev (path pd)")
      case None
      with False id show ?thesis unfolding caption_block_def by (metis option.simps(4))
    next
      case (Some wh)
      obtain w h where wh: "wh = (w, h)" by (cases wh)
      obtain c where "aae_step ev (sips_step ev (mdls_step ev (tags_step ev False (pd\<lparr>width := Some w, height := Some h\<rparr>))))
        = pd\<lparr>width := Some w, height := Some h\<rparr>\<lparr>caption := c\<rparr>"
        using later_steps_frame by blast
      with False Some wh
      have "caption_block ev is_heic pd = pd\<lparr>caption := c, temp_file := temp_file pd, width := Some w, height := Some h\<rparr>"
        by (simp add: caption_block_def)
      then show ?thesis by blast
    qed
  qed
qed

lemma resolve_caption_frame:
  assumes "resolve_caption ev photo_path = Inr pd"
  shows "\<exists>c w h t. pd = (new_photo_data photo_path)\<lparr>caption := c, temp_file := t, width := w, height := h\<rparr>"
proof -
  let ?pd0 = "new_photo_data photo_path"
  from assms obtain found pd1 pd2 where
    pd1: "pd1 = (case found of None \<Rightarrow> ?pd0 | Some v \<Rightarrow> ?pd0\<lparr>caption := v\<rparr>)" and
    pd2: "pd2 = (if \<not> py_truthy (caption pd1) then caption_block ev (is_heic_path photo_path) pd1 else pd1)" and
    pd: "pd = filename_step ev pd2"
    by (auto simp: resolve_caption_def Let_def split: sum.splits)
  have "\<exists>c1. pd1 = ?pd0\<lparr>caption := c1\<rparr>"
  proof (cases found)
    case None
    then have "pd1 = ?pd0\<lparr>caption := caption ?pd0\<rparr>" using pd1 by simp
    then show ?thesis by blast
  next
    case (Some v)
    then show ?thesis using pd1 by auto
  qed
  then obtain c1 where 1: "pd1 = ?pd0\<lparr>caption := c1\<rparr>" by blast
  obtain c2 w h t where 2: "pd2 = pd1\<lparr>caption := c2, temp_file := t, width := w, height := h\<rparr>"
  proof (cases "py_truthy (caption pd1)")
    case True
    then have "pd2 = pd1\<lparr>caption := caption pd1, temp_file := temp_file pd1, width := width pd1, height := height pd1\<rparr>"
      using pd2 by simp
    then show ?thesis using that by blast
  next
    case False
    then show ?thesis using pd2 caption_block_frame[of ev "is_heic_path photo_path" pd1] that by auto
  qed
  obtain c3 where 3: "pd = pd2\<lparr>caption := c3\<rparr>" using pd filename_step_frame by blast
  have "pd = ?pd0\<lparr>caption := c3, temp_file := t, width := w, height := h\<rparr>"
    using 1 2 3 by simp
  then show ?thesis by blast
qed

subsection \<open>GPS coordinates of a record\<close>

lemma gps_validate_cases:
  "gps_validate st = (None, None) \<or>
   (\<exists>la lo. gps_validate st = (Some la, Some lo) \<and> gps_in_range la lo)"
  by (auto simp: gps_validate_def split: prod.splits option.splits)

lemma extract_gps_data_cases:
  "extract_gps_data ev tags md fp = Inr st \<Longrightarrow>
     st = (None, None) \<or> (\<exists>la lo. st = (Some la, Some lo) \<and> gps_in_range la lo)"
proof -
  assume "extract_gps_data ev tags md fp = Inr st"
  then have "st = gps_validate (gps_sources ev tags fp
                 (projr (gps_from_exiftool (float_of_str ev) md (None, None))))"
    by (cases "gps_from_exiftool (float_of_str ev) md (None, None)")
       (simp_all add: extract_gps_data_def)
  then show ?thesis using gps_validate_cases by metis
qed

text \<open>
  C1. In every record returned by \<open>extract_metadata_from_photo\<close> the latitude and the
  longitude are both absent or both present, and when present the latitude is in
  \<open>[-90, 90]\<close> and the longitude in \<open>[-180, 180]\<close>: a pair outside these ranges is never
  stored.
\<close>

theorem photo_gps_invariant:
  assumes "extract_metadata_from_photo ev photo_path = Inr pd"
  shows "(latitude pd = None \<and> longitude pd = None) \<or>
         (\<exists>la lo. latitude pd = Some la \<and> longitude pd = Some lo \<and>
                   - 90 \<le> la \<and> la \<le> 90 \<and> - 180 \<le> lo \<and> lo \<le> 180)"
proof -
  from assms obtain pd0 st found where
    rc: "resolve_caption ev photo_path = Inr pd0" and
    gps: "extract_gps_data ev (gps_tags ev photo_path)
            (get_heic_metadata_with_exiftool ev photo_path) (Some photo_path) = Inr st" and
    pd: "pd = store_orientation found (store_gps st pd0)"
    by (auto simp: extract_metadata_from_photo_def Let_def split: sum.splits)
  from resolve_caption_frame[OF rc]
  have none0: "latitude pd0 = None" "longitude pd0 = None"
    by (auto simp: new_photo_data_def)
  have keep: "latitude pd = latitude (store_gps st pd0)" "longitude pd = longitude (store_gps st pd0)"
    using pd by (auto simp: store_orientation_def split: option.splits)
  from extract_gps_data_cases[OF gps] show ?thesis
  proof
    assume "st = (None, None)"
    then show ?thesis using keep none0 by (simp add: store_gps_def)
  next
    assume "\<exists>la lo. st = (Some la, Some lo) \<and> gps_in_range la lo"
    then show ?thesis using keep by (auto simp: store_gps_def gps_in_range_def)
  qed
qed

theorem photo_gps_invariant_witness:
  "extract_metadata_from_photo env_sydney ''/photos/Harbour_Bridge.jpg'' =
     Inr \<lparr>path = ''/photos/Harbour_Bridge.jpg'', filename = ''Harbour_Bridge.jpg'',
          caption = PStr ''Harbour Bridge'', temp_file = None, width = Some 640,
          height = Some 480, latitude = Some (- 33.5), longitude = Some 151.25,
          orientation = Some 127.5\<rparr>
   \<and> - 90 \<le> (- 33.5 :: real) \<and> (- 33.5 :: real) \<le> 90
   \<and> - 180 \<le> (151.25 :: real) \<and> (151.25 :: real) \<le> 180"
proof -
  have run: "extract_metadata_from_photo env_sydney ''/photos/Harbour_Bridge.jpg'' =
     Inr \<lparr>path = ''/photos/Harbour_Bridge.jpg'', filename = ''Harbour_Bridge.jpg'',
          caption = PStr ''Harbour Bridge'', temp_file = None, width = Some 640,
          height = Some 480, latitude = Some (- 33.5), longitude = Some 151.25,
          orientation = Some 127.5\<rparr>"
    by (simp add: env_sydney_def model_defs)
  from photo_gps_invariant[OF run] run show ?thesis by simp
qed



subsection \<open>Cleanup of temporary files\<close>

text \<open>
  The cleanup loop always runs to its end. It only removes paths, every path it calls
  \<^verbatim>\<open>os.unlink\<close> on existed when the loop started, and a temporary file of the list that
  still exists afterwards is one whose deletion was tried and failed.
\<close>

lemma cleanup_loop_total:
  "\<exists>files' tried' logged'. cleanup_loop locked st entries = Inr (files', tried', logged')"
proof (induction entries arbitrary: st)
  case Nil
  show ?case by (cases st) simp
next
  case (Cons entry rest)
  obtain files tried logged where st: "st = (files, tried, logged)" by (cases st) auto
  show ?case unfolding st using Cons.IH
    by (simp add: os_unlink_def split: option.splits)
qed


lemma cleanup_loop_skip:
  "(\<forall>entry \<in> set entries. \<forall>pd p. entry = Some pd \<and> temp_file pd = Some p \<longrightarrow> p = [] \<or> p \<notin> files)
     \<Longrightarrow> cleanup_loop locked (files, tried, logged) entries = Inr (files, tried, logged)"
  by (induction entries) (auto split: option.splits)



text \<open>
  C10. \<open>cleanup_temp_files\<close> does not raise on degenerate input: with \<^verbatim>\<open>None\<close> it
  returns at once, it returns normally on every list, and a list whose entries are
  \<^verbatim>\<open>None\<close>, have no \<^verbatim>\<open>temp_file\<close> or an empty one, or name a path that does not exist,
  is passed over without any deletion attempt.
\<close>

theorem cleanup_temp_files_degenerate:
  "cleanup_temp_files locked files None = Inr (files, [], [])
   \<and> (\<exists>r. cleanup_temp_files locked files photo_data_list = Inr r)
   \<and> ((\<forall>entry \<in> set entries.
          entry = None \<or>
          (\<exists>pd. entry = Some pd \<and>
             (temp_file pd = None \<or> temp_file pd = Some [] \<or>
              (\<exists>p. temp_file pd = Some p \<and> p \<notin> files))))
        \<longrightarrow> cleanup_temp_files locked files (Some entries) = Inr (files, [], []))"
proof -
  have total: "\<exists>r. cleanup_temp_files locked files photo_data_list = Inr r"
    using cleanup_loop_total[of locked "(files, [], [])"]
    by (cases photo_data_list) (auto simp: cleanup_temp_files_def)
  have skip: "cleanup_temp_files locked files (Some entries) = Inr (files, [], [])"
    if "\<forall>entry \<in> set entries.
          entry = None \<or>
          (\<exists>pd. entry = Some pd \<and>
             (temp_file pd = None \<or> temp_file pd = Some [] \<or>
              (\<exists>p. temp_file pd = Some p \<and> p \<notin> files)))"
  proof -
    from that have "\<forall>entry \<in> set entries. \<forall>pd p. entry = Some pd \<and> temp_file pd = Some p
            \<longrightarrow> p = [] \<or> p \<notin> files"
      by fastforce
    from cleanup_loop_skip[OF this] show ?thesis by (simp add: cleanup_temp_files_def)
  qed
  show ?thesis using total skip by (simp add: cleanup_temp_files_def)
qed

theorem cleanup_temp_files_degenerate_witness:
  "temp_file pd_plain = None
   \<and> temp_file (pd_plain\<lparr>temp_file := Some []\<rparr>) = Some []
   \<and> temp_file pd_tmp = Some ''/tmp/tmp8a.jpg'' \<and> ''/tmp/tmp8a.jpg'' \<notin> {''/in/b.jpg''}
   \<and> cleanup_temp_files {} {''/in/b.jpg''}
        (Some [None, Some pd_plain, Some (pd_plain\<lparr>temp_file := Some []\<rparr>), Some pd_tmp])
      = Inr ({''/in/b.jpg''}, [], [])"
proof -
  have h: "\<forall>entry \<in> set [None, Some pd_plain, Some (pd_plain\<lparr>temp_file := Some []\<rparr>), Some pd_tmp].
          entry = None \<or>
          (\<exists>pd. entry = Some pd \<and>
             (temp_file pd = None \<or> temp_file pd = Some [] \<or>
              (\<exists>p. temp_file pd = Some p \<and> p \<notin> {''/in/b.jpg''})))"
    by (simp add: pd_tmp_def pd_plain_def)
  from cleanup_temp_files_degenerate[of "{}" "{''/in/b.jpg''}" None
         "[None, Some pd_plain, Some (pd_plain\<lparr>temp_file := Some []\<rparr>), Some pd_tmp]"] h
  have "cleanup_temp_files {} {''/in/b.jpg''}
        (Some [None, Some pd_plain, Some (pd_plain\<lparr>temp_file := Some []\<rparr>), Some pd_tmp])
      = Inr ({''/in/b.jpg''}, [], [])"
    by blast
  then show ?thesis by (simp add: pd_tmp_def pd_plain_def)
qed

subsection \<open>The GPS cascade\<close>

text \<open>A source is skipped once both coordinates are there.\<close>

lemma gps_from_tags_complete: "\<not> gps_missing st \<Longrightarrow> gps_from_tags fl tags st = st"
  by (simp add: gps_from_tags_def)

lemma gps_from_mdls_complete: "\<not> gps_missing st \<Longrightarrow> gps_from_mdls ev fp st = st"
  by (simp add: gps_from_mdls_def)

lemma gps_from_direct_complete: "\<not> gps_missing st \<Longrightarrow> gps_from_direct ev fp st = st"
  by (simp add: gps_from_direct_def split: option.splits)

lemma gps_validate_pair:
  "gps_validate (Some la, Some lo) = (if gps_in_range la lo then (Some la, Some lo) else (None, None))"
  by (simp add: gps_validate_def)

text \<open>
  C2, as the code has it. The first source that leaves both coordinates set decides the
  result: if the pair \<open>(la, lo)\<close> is complete after the external tool's metadata, after
  the embedded tags or after the metadata service, no later source is consulted and
  \<open>extract_gps_data\<close> returns the pair when it is in range and absence for both fields
  when it is not.
\<close>

theorem gps_first_complete_pair_decides:
  assumes "gps_from_exiftool (float_of_str ev) md (None, None) = Inr st1"
  shows "(st1 = (Some la, Some lo)
          \<or> gps_from_tags (float_of_str ev) tags st1 = (Some la, Some lo)
          \<or> gps_from_mdls ev fp (gps_from_tags (float_of_str ev) tags st1) = (Some la, Some lo))
         \<longrightarrow> extract_gps_data ev tags md fp =
               Inr (if gps_in_range la lo then (Some la, Some lo) else (None, None))"
proof
  let ?st2 = "gps_from_tags (float_of_str ev) tags st1"
  let ?st3 = "gps_from_mdls ev fp ?st2"
  assume "st1 = (Some la, Some lo) \<or> ?st2 = (Some la, Some lo) \<or> ?st3 = (Some la, Some lo)"
  then have "gps_sources ev tags fp st1 = (Some la, Some lo)"
  proof (elim disjE)
    assume 1: "st1 = (Some la, Some lo)"
    then have "\<not> gps_missing st1" by (simp add: gps_missing_def)
    then show ?thesis
      using 1 by (simp add: gps_sources_def gps_from_tags_complete gps_from_mdls_complete
                            gps_from_direct_complete)
  next
    assume 2: "?st2 = (Some la, Some lo)"
    then have "\<not> gps_missing ?st2" by (simp add: gps_missing_def)
    then show ?thesis
      using 2 by (simp add: gps_sources_def gps_from_mdls_complete gps_from_direct_complete)
  next
    assume 3: "?st3 = (Some la, Some lo)"
    then have "\<not> gps_missing ?st3" by (simp add: gps_missing_def)
    then show ?thesis
      using 3 by (simp add: gps_sources_def gps_from_direct_complete)
  qed
  then show "extract_gps_data ev tags md fp =
               Inr (if gps_in_range la lo then (Some la, Some lo) else (None, None))"
    using assms by (simp add: extract_gps_data_def gps_validate_pair)
qed

theorem gps_first_complete_pair_decides_witness:
  "gps_from_exiftool (float_of_str env_none) md_out_of_range (None, None) = Inr (Some 95, Some 10)
   \<and> \<not> gps_in_range 95 10
   \<and> extract_gps_data env_none tags_paris md_out_of_range (Some ''/photos/a.jpg'') = Inr (None, None)"
proof -
  have 1: "gps_from_exiftool (float_of_str env_none) md_out_of_range (None, None)
             = Inr (Some 95, Some 10)"
    by (simp add: md_out_of_range_def model_defs)
  have 2: "\<not> gps_in_range 95 10" by (simp add: gps_in_range_def)
  from gps_first_complete_pair_decides[OF 1, of 95 10 tags_paris "Some ''/photos/a.jpg''"] 1 2
  show ?thesis by simp
qed

text \<open>
  C2, as stated, fails. The external tool's metadata gives the pair (95, 10), which is
  out of range; the embedded tags alone give a pair in range; with both, the result is
  absence and not the pair of the tags.
\<close>

theorem gps_later_source_counterexample:
  "gps_from_exiftool (float_of_str env_none) md_out_of_range (None, None) = Inr (Some 95, Some 10)
   \<and> \<not> gps_in_range 95 10
   \<and> gps_sources env_none tags_paris (Some ''/photos/a.jpg'') (None, None)
       = (Some (48 + 51 / 60 + 30 / 3600), Some (2 + 17 / 60 + 40 / 3600))
   \<and> gps_in_range (48 + 51 / 60 + 30 / 3600) (2 + 17 / 60 + 40 / 3600)
   \<and> extract_gps_data env_none tags_paris (PDict []) (Some ''/photos/a.jpg'')
       = Inr (Some (48 + 51 / 60 + 30 / 3600), Some (2 + 17 / 60 + 40 / 3600))
   \<and> extract_gps_data env_none tags_paris md_out_of_range (Some ''/photos/a.jpg'')
       = Inr (None, None)"
  by (simp add: md_out_of_range_def tags_paris_def model_defs)

subsection \<open>Orientation of a record\<close>






subsection \<open>Captions and dimensions of HEIC photos\<close>

text \<open>
  C5. The caption taken from a description field of the external tool for a HEIC photo is
  stored as it is: the value \<^verbatim>\<open>"  Family dinner  "\<close> stays untrimmed, whereas the same
  value in an embedded tag of a JPEG is stored stripped.
\<close>

theorem heic_caption_not_trimmed:
  "extract_metadata_from_photo env_dinner ''/photos/IMG_0001.HEIC'' =
     Inr \<lparr>path = ''/photos/IMG_0001.HEIC'', filename = ''IMG_0001.HEIC'',
          caption = PStr ''  Family dinner  '', temp_file = None, width = None, height = None,
          latitude = None, longitude = None, orientation = None\<rparr>
   \<and> py_strip ''  Family dinner  '' = ''Family dinner''
   \<and> extract_metadata_from_photo env_dinner_embedded ''/photos/IMG_0001.jpg'' =
     Inr \<lparr>path = ''/photos/IMG_0001.jpg'', filename = ''IMG_0001.jpg'',
          caption = PStr ''Family dinner'', temp_file = None, width = Some 4032,
          height = Some 3024, latitude = None, longitude = None, orientation = None\<rparr>"
  by (simp add: env_dinner_def env_dinner_embedded_def model_defs)

text \<open>
  C7. A HEIC photo whose caption is found in a description field of the external tool is
  never opened: its record has no width, no height and no temporary file although the
  image can be opened, whereas the same photo without that caption gets all three.
\<close>

theorem heic_captioned_without_dimensions:
  "extract_metadata_from_photo env_sunset ''/photos/IMG_0002.heic'' =
     Inr \<lparr>path = ''/photos/IMG_0002.heic'', filename = ''IMG_0002.heic'',
          caption = PStr ''Sunset'', temp_file = None, width = None, height = None,
          latitude = None, longitude = None, orientation = None\<rparr>
   \<and> image_size env_sunset ''/photos/IMG_0002.heic'' = Some (4032, 3024)
   \<and> extract_metadata_from_photo env_sunset_untitled ''/photos/IMG_0002.heic'' =
     Inr \<lparr>path = ''/photos/IMG_0002.heic'', filename = ''IMG_0002.heic'',
          caption = PStr ''0002'', temp_file = Some ''/tmp/tmpk3v9.jpg'', width = Some 4032,
          height = Some 3024, latitude = None, longitude = None, orientation = None\<rparr>"
  by (simp add: env_sunset_def env_sunset_untitled_def model_defs)

subsection \<open>Batches\<close>









subsection \<open>Filename fallback\<close>















text \<open>The root of a file name with an extension is the part before its last dot.\<close>

lemma basename_plain: "CHR ''/'' \<notin> set p \<Longrightarrow> basename p = p"
proof -
  assume "CHR ''/'' \<notin> set p"
  then have tw: "takeWhile (\<lambda>c. c \<noteq> CHR ''/'') (rev p) = rev p"
    by (intro takeWhile_eq_all_conv[THEN iffD2]) auto
  show ?thesis unfolding basename_def tw by simp
qed


lemma splitext_root_no_dot:
  assumes "CHR ''.'' \<notin> set p" and "CHR ''/'' \<notin> set p"
  shows "splitext_root p = p"
proof -
  have "basename p = p" using assms(2) by (rule basename_plain)
  then show ?thesis using assms(1) by (simp add: splitext_root_def Let_def)
qed





end
